theory Spec2Isabelle
  imports Complex_Main "HOL-Library.AList"
begin

section \<open>The model handle of h2o-py: \<^verbatim>\<open>h2o/model/model_base.py\<close>\<close>

text \<open>
  \<^verbatim>\<open>ModelBase\<close> is a client-side handle of a model that lives on a remote cluster.
  The embedding below follows the Python source method by method. Python exceptions are
  values of \<open>py_error\<close>; a method that may raise returns \<open>py_error + 'a\<close> with
  \<open>Inl\<close> for the exception. Dictionaries whose items the code iterates over are
  association lists, written to with \<open>AList.update\<close> (replace in place, or append),
  which is what assignment to a key of a Python dictionary does.
\<close>

subsection \<open>Exceptions and JSON values\<close>

text \<open>
  \<open>TypeError\<close> is what subscripting or calling \<^verbatim>\<open>None\<close> raises,
  \<open>AttributeError\<close> what a method call on \<^verbatim>\<open>None\<close> raises.
  \<open>H2OValueError\<close> is the exception class of \<^verbatim>\<open>h2o.exceptions\<close>, with its
  message. \<open>RemoteError\<close> stands for whatever a failed call to the cluster raises.
\<close>

datatype py_error =
    TypeError
  | AttributeError
  | KeyError
  | ValueError string
  | H2OValueError string
  | RemoteError string

datatype json =
    JNull
  | JBool bool
  | JNum real
  | JStr string
  | JList "json list"
  | JDict "(string \<times> json) list"

text \<open>\<^verbatim>\<open>d[k]\<close> on a dictionary: the value, or \<^verbatim>\<open>KeyError\<close>.\<close>

definition dict_get :: "(string \<times> 'a) list \<Rightarrow> string \<Rightarrow> py_error + 'a" where
  "dict_get d k = (case map_of d k of None \<Rightarrow> Inl KeyError | Some v \<Rightarrow> Inr v)"

text \<open>
  \<^verbatim>\<open>x.get(k, None)\<close>: defined on dictionaries only; on \<^verbatim>\<open>None\<close>, a number, a string
  or a list the attribute \<^verbatim>\<open>get\<close> does not exist.
\<close>

fun py_get :: "json \<Rightarrow> string \<Rightarrow> py_error + json" where
  "py_get (JDict d) k = Inr (case map_of d k of None \<Rightarrow> JNull | Some v \<Rightarrow> v)"
| "py_get JNull k = Inl AttributeError"
| "py_get (JBool b) k = Inl AttributeError"
| "py_get (JNum n) k = Inl AttributeError"
| "py_get (JStr s) k = Inl AttributeError"
| "py_get (JList xs) k = Inl AttributeError"

text \<open>\<^verbatim>\<open>"%s" % x\<close> for an identifier that may still be \<^verbatim>\<open>None\<close>.\<close>

fun py_str :: "string option \<Rightarrow> string" where
  "py_str None = ''None''"
| "py_str (Some s) = s"

subsection \<open>The model document\<close>

text \<open>
  Modelled from the spec: the metrics view (class \<^verbatim>\<open>H2OModelMetrics\<close> of
  \<^verbatim>\<open>h2o/model/metrics_base.py\<close>, which is not part of the source at hand) is
  "a typed wrapper over a raw metric JSON block exposing named statistic accessors".
  It is a record with one field per statistic method that \<^verbatim>\<open>ModelBase\<close> calls; the
  field \<open>m_mse\<close> is what the method \<^verbatim>\<open>mse()\<close> of the view returns, and so on. The type
  \<open>'v\<close> of the statistics is left open: \<^verbatim>\<open>ModelBase\<close> only passes them on.
\<close>

record 'v H2OModelMetrics =
  m_r2 :: 'v
  m_mse :: 'v
  m_rmse :: 'v
  m_mae :: 'v
  m_rmsle :: 'v
  m_logloss :: 'v
  m_mean_residual_deviance :: 'v
  m_auc :: 'v
  m_aic :: 'v
  m_gini :: 'v
  m_residual_deviance :: 'v
  m_residual_degrees_of_freedom :: 'v
  m_null_deviance :: 'v
  m_null_degrees_of_freedom :: 'v

text \<open>
  Modelled from the spec: an "output sub-structure" of the document such as the model
  summary or the scoring history (class \<^verbatim>\<open>H2OTwoDimTable\<close>, which is not part of the
  source at hand) is opaque: the handle only passes it on or asks it to show itself.
\<close>

datatype table = Table string

text \<open>
  \<^verbatim>\<open>self._model_json["output"]\<close>. A field is \<open>None\<close> where the document holds
  \<^verbatim>\<open>null\<close>. For \<^verbatim>\<open>model_summary\<close>, \<^verbatim>\<open>scoring_history\<close> and
  \<^verbatim>\<open>variable_importances\<close> the source tests \<^verbatim>\<open>"k" in model\<close> before it reads
  \<^verbatim>\<open>model["k"]\<close>, so a missing key and \<^verbatim>\<open>null\<close> take the same branch and are both
  \<open>None\<close>. The metric blocks and the cross-validation summary are read with
  \<^verbatim>\<open>model["k"]\<close> alone: a fetched document always has these keys. The field
  \<open>json_output\<close> is the key \<^verbatim>\<open>"output"\<close> and \<open>scoring_history_table\<close> the key
  \<^verbatim>\<open>"scoring_history"\<close>.
\<close>

record 'v model_output =
  model_summary :: "table option"
  scoring_history_table :: "table option"
  variable_importances :: "table option"
  training_metrics :: "'v H2OModelMetrics option"
  validation_metrics :: "'v H2OModelMetrics option"
  cross_validation_metrics :: "'v H2OModelMetrics option"
  cross_validation_metrics_summary :: "table option"

record 'v model_json =
  algo :: string
  algo_full_name :: string
  json_output :: "'v model_output"

record param =
  default_value :: json
  actual_value :: json

text \<open>
  Modelled from the spec: the job handle (class \<^verbatim>\<open>H2OJob\<close>, which is not part of the
  source at hand) is "an opaque reference to an in-progress remote computation".
\<close>

datatype H2OJob = H2OJob string

text \<open>
  The fields of \<^verbatim>\<open>ModelBase.__init__\<close> that the methods below read. A leading
  underscore of the source is written \<open>priv_\<close>. \<open>class_name\<close> is
  \<^verbatim>\<open>self.__class__.__name__\<close>.
\<close>

record 'v ModelBase =
  class_name :: string
  priv_id :: "string option"
  priv_model_json :: "'v model_json option"
  parms :: "(string \<times> param) list"
  priv_future :: bool
  priv_job :: "H2OJob option"

definition ModelBase_init :: "'v ModelBase" where
  "ModelBase_init =
     \<lparr>class_name = ''ModelBase'', priv_id = None, priv_model_json = None, parms = [],
      priv_future = False, priv_job = None\<rparr>"

definition model_id :: "'v ModelBase \<Rightarrow> string option" where
  "model_id self = priv_id self"

subsection \<open>Metric selection\<close>

text \<open>
  \<^verbatim>\<open>ModelBase._get_metrics(o, train, valid, xval)\<close>. Subscripting a document that is
  \<^verbatim>\<open>None\<close> raises \<^verbatim>\<open>TypeError\<close>.
\<close>

definition get_metrics ::
  "'v ModelBase \<Rightarrow> bool \<Rightarrow> bool \<Rightarrow> bool \<Rightarrow>
   py_error + (string \<times> 'v H2OModelMetrics option) list" where
  "get_metrics self train valid xval =
     (case priv_model_json self of
        None \<Rightarrow> Inl TypeError
      | Some doc \<Rightarrow>
          (let out = json_output doc;
               metrics = [];
               metrics = (if train then AList.update ''train'' (training_metrics out) metrics
                          else metrics);
               metrics = (if valid then AList.update ''valid'' (validation_metrics out) metrics
                          else metrics);
               metrics = (if xval
                          then AList.update ''xval'' (cross_validation_metrics out) metrics
                          else metrics);
               metrics = (if length metrics = 0
                          then AList.update ''train'' (training_metrics out) metrics
                          else metrics)
           in Inr metrics))"

text \<open>
  What a scalar accessor returns: \<^verbatim>\<open>list(m.values())[0]\<close>, a single value that is
  \<^verbatim>\<open>None\<close> where the role has no metrics, or the dictionary \<^verbatim>\<open>m\<close> itself.
\<close>

datatype 'v metric_result =
    Scalar "'v option"
  | By_role "(string \<times> 'v option) list"

text \<open>
  The body shared, as text, by the ten scalar accessors:
  \<^verbatim>\<open>
  tm = ModelBase._get_metrics(self, train, valid, xval)
  m = {}
  for k, v in viewitems(tm): m[k] = None if v is None else v.mse()
  return list(m.values())[0] if len(m) == 1 else m
  \<close>
  The loop is a left fold over the items of \<^verbatim>\<open>tm\<close>.
\<close>

definition r2 ::
  "'v ModelBase \<Rightarrow> bool \<Rightarrow> bool \<Rightarrow> bool \<Rightarrow> py_error + 'v metric_result" where
  "r2 self train valid xval =
     (case get_metrics self train valid xval of
        Inl e \<Rightarrow> Inl e
      | Inr tm \<Rightarrow>
          (let m = foldl (\<lambda>m (k, v).
                     AList.update k (case v of None \<Rightarrow> None | Some x \<Rightarrow> Some (m_r2 x)) m) [] tm
           in Inr (if length m = 1 then Scalar (snd (hd m)) else By_role m)))"

definition mse ::
  "'v ModelBase \<Rightarrow> bool \<Rightarrow> bool \<Rightarrow> bool \<Rightarrow> py_error + 'v metric_result" where
  "mse self train valid xval =
     (case get_metrics self train valid xval of
        Inl e \<Rightarrow> Inl e
      | Inr tm \<Rightarrow>
          (let m = foldl (\<lambda>m (k, v).
                     AList.update k (case v of None \<Rightarrow> None | Some x \<Rightarrow> Some (m_mse x)) m) [] tm
           in Inr (if length m = 1 then Scalar (snd (hd m)) else By_role m)))"

definition rmse ::
  "'v ModelBase \<Rightarrow> bool \<Rightarrow> bool \<Rightarrow> bool \<Rightarrow> py_error + 'v metric_result" where
  "rmse self train valid xval =
     (case get_metrics self train valid xval of
        Inl e \<Rightarrow> Inl e
      | Inr tm \<Rightarrow>
          (let m = foldl (\<lambda>m (k, v).
                     AList.update k (case v of None \<Rightarrow> None | Some x \<Rightarrow> Some (m_rmse x)) m) [] tm
           in Inr (if length m = 1 then Scalar (snd (hd m)) else By_role m)))"

definition mae ::
  "'v ModelBase \<Rightarrow> bool \<Rightarrow> bool \<Rightarrow> bool \<Rightarrow> py_error + 'v metric_result" where
  "mae self train valid xval =
     (case get_metrics self train valid xval of
        Inl e \<Rightarrow> Inl e
      | Inr tm \<Rightarrow>
          (let m = foldl (\<lambda>m (k, v).
                     AList.update k (case v of None \<Rightarrow> None | Some x \<Rightarrow> Some (m_mae x)) m) [] tm
           in Inr (if length m = 1 then Scalar (snd (hd m)) else By_role m)))"

definition rmsle ::
  "'v ModelBase \<Rightarrow> bool \<Rightarrow> bool \<Rightarrow> bool \<Rightarrow> py_error + 'v metric_result" where
  "rmsle self train valid xval =
     (case get_metrics self train valid xval of
        Inl e \<Rightarrow> Inl e
      | Inr tm \<Rightarrow>
          (let m = foldl (\<lambda>m (k, v).
                     AList.update k (case v of None \<Rightarrow> None | Some x \<Rightarrow> Some (m_rmsle x)) m) [] tm
           in Inr (if length m = 1 then Scalar (snd (hd m)) else By_role m)))"

definition logloss ::
  "'v ModelBase \<Rightarrow> bool \<Rightarrow> bool \<Rightarrow> bool \<Rightarrow> py_error + 'v metric_result" where
  "logloss self train valid xval =
     (case get_metrics self train valid xval of
        Inl e \<Rightarrow> Inl e
      | Inr tm \<Rightarrow>
          (let m = foldl (\<lambda>m (k, v).
                     AList.update k (case v of None \<Rightarrow> None | Some x \<Rightarrow> Some (m_logloss x)) m) [] tm
           in Inr (if length m = 1 then Scalar (snd (hd m)) else By_role m)))"

definition mean_residual_deviance ::
  "'v ModelBase \<Rightarrow> bool \<Rightarrow> bool \<Rightarrow> bool \<Rightarrow> py_error + 'v metric_result" where
  "mean_residual_deviance self train valid xval =
     (case get_metrics self train valid xval of
        Inl e \<Rightarrow> Inl e
      | Inr tm \<Rightarrow>
          (let m = foldl (\<lambda>m (k, v).
                     AList.update k
                       (case v of None \<Rightarrow> None | Some x \<Rightarrow> Some (m_mean_residual_deviance x)) m)
                     [] tm
           in Inr (if length m = 1 then Scalar (snd (hd m)) else By_role m)))"

definition auc ::
  "'v ModelBase \<Rightarrow> bool \<Rightarrow> bool \<Rightarrow> bool \<Rightarrow> py_error + 'v metric_result" where
  "auc self train valid xval =
     (case get_metrics self train valid xval of
        Inl e \<Rightarrow> Inl e
      | Inr tm \<Rightarrow>
          (let m = foldl (\<lambda>m (k, v).
                     AList.update k (case v of None \<Rightarrow> None | Some x \<Rightarrow> Some (m_auc x)) m) [] tm
           in Inr (if length m = 1 then Scalar (snd (hd m)) else By_role m)))"

definition aic ::
  "'v ModelBase \<Rightarrow> bool \<Rightarrow> bool \<Rightarrow> bool \<Rightarrow> py_error + 'v metric_result" where
  "aic self train valid xval =
     (case get_metrics self train valid xval of
        Inl e \<Rightarrow> Inl e
      | Inr tm \<Rightarrow>
          (let m = foldl (\<lambda>m (k, v).
                     AList.update k (case v of None \<Rightarrow> None | Some x \<Rightarrow> Some (m_aic x)) m) [] tm
           in Inr (if length m = 1 then Scalar (snd (hd m)) else By_role m)))"

definition gini ::
  "'v ModelBase \<Rightarrow> bool \<Rightarrow> bool \<Rightarrow> bool \<Rightarrow> py_error + 'v metric_result" where
  "gini self train valid xval =
     (case get_metrics self train valid xval of
        Inl e \<Rightarrow> Inl e
      | Inr tm \<Rightarrow>
          (let m = foldl (\<lambda>m (k, v).
                     AList.update k (case v of None \<Rightarrow> None | Some x \<Rightarrow> Some (m_gini x)) m) [] tm
           in Inr (if length m = 1 then Scalar (snd (hd m)) else By_role m)))"

subsection \<open>The deviance and degrees-of-freedom accessors\<close>

text \<open>
  \<^verbatim>\<open>
  if xval: raise H2OValueError("Cross-validation metrics are not available.")
  if not train and not valid: train = True
  if train and valid:  train = True
  if train:
      return self._model_json["output"]["training_metrics"].residual_deviance()
  else:
      return self._model_json["output"]["validation_metrics"].residual_deviance()
  \<close>
  The method call on a metrics block that is \<^verbatim>\<open>None\<close> raises \<^verbatim>\<open>AttributeError\<close>.
  The selectors are Booleans; the default \<^verbatim>\<open>xval=None\<close> of \<^verbatim>\<open>residual_deviance\<close>
  is false in \<^verbatim>\<open>if xval\<close>.
\<close>

definition residual_deviance ::
  "'v ModelBase \<Rightarrow> bool \<Rightarrow> bool \<Rightarrow> bool \<Rightarrow> py_error + 'v" where
  "residual_deviance self train valid xval =
     (if xval then Inl (H2OValueError ''Cross-validation metrics are not available.'')
      else
        (let train = (if \<not> train \<and> \<not> valid then True else train);
             train = (if train \<and> valid then True else train)
         in if train then
              (case priv_model_json self of
                 None \<Rightarrow> Inl TypeError
               | Some doc \<Rightarrow>
                   (case training_metrics (json_output doc) of
                      None \<Rightarrow> Inl AttributeError
                    | Some tm \<Rightarrow> Inr (m_residual_deviance tm)))
            else
              (case priv_model_json self of
                 None \<Rightarrow> Inl TypeError
               | Some doc \<Rightarrow>
                   (case validation_metrics (json_output doc) of
                      None \<Rightarrow> Inl AttributeError
                    | Some vm \<Rightarrow> Inr (m_residual_deviance vm)))))"

definition residual_degrees_of_freedom ::
  "'v ModelBase \<Rightarrow> bool \<Rightarrow> bool \<Rightarrow> bool \<Rightarrow> py_error + 'v" where
  "residual_degrees_of_freedom self train valid xval =
     (if xval then Inl (H2OValueError ''Cross-validation metrics are not available.'')
      else
        (let train = (if \<not> train \<and> \<not> valid then True else train);
             train = (if train \<and> valid then True else train)
         in if train then
              (case priv_model_json self of
                 None \<Rightarrow> Inl TypeError
               | Some doc \<Rightarrow>
                   (case training_metrics (json_output doc) of
                      None \<Rightarrow> Inl AttributeError
                    | Some tm \<Rightarrow> Inr (m_residual_degrees_of_freedom tm)))
            else
              (case priv_model_json self of
                 None \<Rightarrow> Inl TypeError
               | Some doc \<Rightarrow>
                   (case validation_metrics (json_output doc) of
                      None \<Rightarrow> Inl AttributeError
                    | Some vm \<Rightarrow> Inr (m_residual_degrees_of_freedom vm)))))"

definition null_deviance ::
  "'v ModelBase \<Rightarrow> bool \<Rightarrow> bool \<Rightarrow> bool \<Rightarrow> py_error + 'v" where
  "null_deviance self train valid xval =
     (if xval then Inl (H2OValueError ''Cross-validation metrics are not available.'')
      else
        (let train = (if \<not> train \<and> \<not> valid then True else train);
             train = (if train \<and> valid then True else train)
         in if train then
              (case priv_model_json self of
                 None \<Rightarrow> Inl TypeError
               | Some doc \<Rightarrow>
                   (case training_metrics (json_output doc) of
                      None \<Rightarrow> Inl AttributeError
                    | Some tm \<Rightarrow> Inr (m_null_deviance tm)))
            else
              (case priv_model_json self of
                 None \<Rightarrow> Inl TypeError
               | Some doc \<Rightarrow>
                   (case validation_metrics (json_output doc) of
                      None \<Rightarrow> Inl AttributeError
                    | Some vm \<Rightarrow> Inr (m_null_deviance vm)))))"

definition null_degrees_of_freedom ::
  "'v ModelBase \<Rightarrow> bool \<Rightarrow> bool \<Rightarrow> bool \<Rightarrow> py_error + 'v" where
  "null_degrees_of_freedom self train valid xval =
     (if xval then Inl (H2OValueError ''Cross-validation metrics are not available.'')
      else
        (let train = (if \<not> train \<and> \<not> valid then True else train);
             train = (if train \<and> valid then True else train)
         in if train then
              (case priv_model_json self of
                 None \<Rightarrow> Inl TypeError
               | Some doc \<Rightarrow>
                   (case training_metrics (json_output doc) of
                      None \<Rightarrow> Inl AttributeError
                    | Some tm \<Rightarrow> Inr (m_null_degrees_of_freedom tm)))
            else
              (case priv_model_json self of
                 None \<Rightarrow> Inl TypeError
               | Some doc \<Rightarrow>
                   (case validation_metrics (json_output doc) of
                      None \<Rightarrow> Inl AttributeError
                    | Some vm \<Rightarrow> Inr (m_null_degrees_of_freedom vm)))))"

subsection \<open>Stored and computed model metrics\<close>

text \<open>
  The argument \<^verbatim>\<open>test_data\<close> of \<^verbatim>\<open>model_performance\<close> is \<^verbatim>\<open>None\<close>, a frame
  (\<^verbatim>\<open>h2o.H2OFrame\<close>, known here by its \<^verbatim>\<open>frame_id\<close>) or some other object.
\<close>

datatype test_data = H2OFrame string | Not_a_frame

text \<open>
  An element \<^verbatim>\<open>mm\<close> of \<^verbatim>\<open>res["model_metrics"]\<close>: \<open>mm_frame\<close> is
  \<^verbatim>\<open>mm["frame"]["name"]\<close>, or \<open>None\<close> where \<^verbatim>\<open>mm["frame"]\<close> is \<^verbatim>\<open>None\<close>.
\<close>

record 'r model_metrics_entry =
  mm_frame :: "string option"
  mm_raw :: 'r

text \<open>
  \<^verbatim>\<open>ModelBase.model_performance\<close>. The cluster and the metrics factory are not part
  of the source at hand and are parameters: \<open>api\<close> is \<^verbatim>\<open>h2o.api\<close> followed by the
  lookup of \<^verbatim>\<open>"model_metrics"\<close>, \<open>metrics_class\<close> is \<^verbatim>\<open>self._metrics_class\<close>.
  In the branch of a \<^verbatim>\<open>test_data\<close> that is not a frame the source evaluates
  \<^verbatim>\<open>"..." + type(test_data)\<close> before it can raise its \<^verbatim>\<open>ValueError\<close>, and adding a
  type to a string raises \<^verbatim>\<open>TypeError\<close>. With Boolean selectors one of the three
  \<^verbatim>\<open>return\<close> statements of the first branch is always reached; falling off its end
  would return \<^verbatim>\<open>None\<close>.
\<close>

definition model_performance ::
  "(string \<Rightarrow> py_error + 'r model_metrics_entry list) \<Rightarrow>
   ('r model_metrics_entry option \<Rightarrow> string \<Rightarrow> 'v H2OModelMetrics) \<Rightarrow>
   'v ModelBase \<Rightarrow> test_data option \<Rightarrow> bool \<Rightarrow> bool \<Rightarrow> bool \<Rightarrow>
   py_error + 'v H2OModelMetrics option" where
  "model_performance api metrics_class self test_data train valid xval =
     (case test_data of
        None \<Rightarrow>
          (let train = (if \<not> train \<and> \<not> valid \<and> \<not> xval then True else train)
           in if train then
                (case priv_model_json self of
                   None \<Rightarrow> Inl TypeError
                 | Some doc \<Rightarrow> Inr (training_metrics (json_output doc)))
              else if valid then
                (case priv_model_json self of
                   None \<Rightarrow> Inl TypeError
                 | Some doc \<Rightarrow> Inr (validation_metrics (json_output doc)))
              else if xval then
                (case priv_model_json self of
                   None \<Rightarrow> Inl TypeError
                 | Some doc \<Rightarrow> Inr (cross_validation_metrics (json_output doc)))
              else Inr None)
      | Some Not_a_frame \<Rightarrow> Inl TypeError
      | Some (H2OFrame frame_id) \<Rightarrow>
          (case api (''POST /3/ModelMetrics/models/'' @ py_str (model_id self) @
                     ''/frames/'' @ frame_id) of
             Inl e \<Rightarrow> Inl e
           | Inr res \<Rightarrow>
               (let raw_metrics = find (\<lambda>mm. mm_frame mm = Some frame_id) res
                in case priv_model_json self of
                     None \<Rightarrow> Inl TypeError
                   | Some doc \<Rightarrow> Inr (Some (metrics_class raw_metrics (algo doc))))))"

subsection \<open>Parameter views\<close>

text \<open>
  \<^verbatim>\<open>self.parms\<close> maps a parameter name to its entry. The three loops
  \<^verbatim>\<open>for p in self.parms: params[p] = ...\<close> run over the keys of the dictionary and look each
  entry up again; the result dictionary, \<open>acc\<close> below, grows by assignment.
\<close>

fun params_loop ::
  "(string \<times> param) list \<Rightarrow> string list \<Rightarrow> (string \<times> (string \<times> json) list) list \<Rightarrow>
   py_error + (string \<times> (string \<times> json) list) list" where
  "params_loop d [] acc = Inr acc"
| "params_loop d (p # ps) acc =
     (case dict_get d p of
        Inl e \<Rightarrow> Inl e
      | Inr entry \<Rightarrow>
          params_loop d ps
            (AList.update p
               [(''default'', default_value entry), (''actual'', actual_value entry)] acc))"

definition params ::
  "'v ModelBase \<Rightarrow> py_error + (string \<times> (string \<times> json) list) list" where
  "params self = params_loop (parms self) (map fst (parms self)) []"

fun default_params_loop ::
  "(string \<times> param) list \<Rightarrow> string list \<Rightarrow> (string \<times> json) list \<Rightarrow>
   py_error + (string \<times> json) list" where
  "default_params_loop d [] acc = Inr acc"
| "default_params_loop d (p # ps) acc =
     (case dict_get d p of
        Inl e \<Rightarrow> Inl e
      | Inr entry \<Rightarrow> default_params_loop d ps (AList.update p (default_value entry) acc))"

definition default_params :: "'v ModelBase \<Rightarrow> py_error + (string \<times> json) list" where
  "default_params self = default_params_loop (parms self) (map fst (parms self)) []"

definition params_to_select :: "(string \<times> string) list" where
  "params_to_select =
     [(''model_id'', ''name''), (''response_column'', ''column_name''),
      (''training_frame'', ''name''), (''validation_frame'', ''name'')]"

text \<open>
  \<^verbatim>\<open>
  if p in params_to_select.keys():
      params[p] = self.parms[p]["actual_value"].get(params_to_select[p], None)
  else:
      params[p] = self.parms[p]["actual_value"]
  \<close>
\<close>

fun actual_params_loop ::
  "(string \<times> param) list \<Rightarrow> string list \<Rightarrow> (string \<times> json) list \<Rightarrow>
   py_error + (string \<times> json) list" where
  "actual_params_loop d [] acc = Inr acc"
| "actual_params_loop d (p # ps) acc =
     (if p \<in> set (map fst params_to_select) then
        (case dict_get d p of
           Inl e \<Rightarrow> Inl e
         | Inr entry \<Rightarrow>
             (case dict_get params_to_select p of
                Inl e \<Rightarrow> Inl e
              | Inr sel \<Rightarrow>
                  (case py_get (actual_value entry) sel of
                     Inl e \<Rightarrow> Inl e
                   | Inr v \<Rightarrow> actual_params_loop d ps (AList.update p v acc))))
      else
        (case dict_get d p of
           Inl e \<Rightarrow> Inl e
         | Inr entry \<Rightarrow> actual_params_loop d ps (AList.update p (actual_value entry) acc)))"

definition actual_params :: "'v ModelBase \<Rightarrow> py_error + (string \<times> json) list" where
  "actual_params self = actual_params_loop (parms self) (map fst (parms self)) []"

definition full_parameters :: "'v ModelBase \<Rightarrow> (string \<times> param) list" where
  "full_parameters self = parms self"

subsection \<open>Reads with effects: printing, the job handle, the cluster\<close>

text \<open>
  What a method does besides returning is a trace of events, in order: a line printed,
  a sub-object of the document asked to show itself, a call of the job handle, a call of
  the cluster. A method with effects takes the trace so far and returns it extended.
  The metric accessors, the parameter views and \<^verbatim>\<open>model_performance\<close> print nothing
  and call neither the job handle nor \<^verbatim>\<open>h2o.rapids\<close>: they are functions of the handle
  (and, for \<^verbatim>\<open>model_performance\<close> with test data, of the cluster's answer).
\<close>

text \<open>
  Modelled from the spec: the methods of the collaborators, which are not part of the
  source at hand. The job handle "allows a single non-blocking status check",
  \<^verbatim>\<open>poll_once()\<close>, which is recorded as \<open>Poll_once\<close> and returns; \<^verbatim>\<open>show()\<close> of a
  metrics view or of a table is recorded as \<open>Show_metrics\<close> or \<open>Show_table\<close>. The
  remote command \<^verbatim>\<open>h2o.rapids\<close> is synchronous and may fail; whether it does is the
  parameter \<open>remote\<close> of \<open>rapids\<close>, from the expression sent to the exception raised,
  if any.
\<close>

datatype 'v event =
    Print string
  | Show_table table
  | Show_metrics "'v H2OModelMetrics"
  | Poll_once H2OJob
  | Rapids string

definition rapids ::
  "(string \<Rightarrow> py_error option) \<Rightarrow> string \<Rightarrow> 'v event list \<Rightarrow>
   (py_error + unit) \<times> 'v event list" where
  "rapids remote expr tr =
     ((case remote expr of None \<Rightarrow> Inr () | Some e \<Rightarrow> Inl e), tr @ [Rapids expr])"

text \<open>
  The setter of \<^verbatim>\<open>model_id\<close>:
  \<^verbatim>\<open>
  oldid = self._id
  self._id = newid
  h2o.rapids('(rename "%s" "%s")' % (oldid, newid))
  \<close>
  It returns the outcome of the call, the object as the caller finds it afterwards (also
  when the call raised), and the trace.
\<close>

definition rename_expr :: "string option \<Rightarrow> string \<Rightarrow> string" where
  "rename_expr oldid newid =
     ''(rename '' @ [CHR 0x22] @ py_str oldid @ [CHR 0x22] @ '' '' @
     [CHR 0x22] @ newid @ [CHR 0x22] @ '')''"

definition model_id_setter ::
  "(string \<Rightarrow> py_error option) \<Rightarrow> 'v ModelBase \<Rightarrow> string \<Rightarrow> 'v event list \<Rightarrow>
   (py_error + unit) \<times> 'v ModelBase \<times> 'v event list" where
  "model_id_setter remote self newid tr =
     (let oldid = priv_id self;
          self = self\<lparr>priv_id := Some newid\<rparr>;
          (r, tr) = rapids remote (rename_expr oldid newid) tr
      in (r, self, tr))"

text \<open>\<^verbatim>\<open>ModelBase.summary\<close>.\<close>

definition summary ::
  "'v ModelBase \<Rightarrow> 'v event list \<Rightarrow> (py_error + table option) \<times> 'v event list" where
  "summary self tr =
     (case priv_model_json self of
        None \<Rightarrow> (Inl TypeError, tr)
      | Some doc \<Rightarrow>
          (case model_summary (json_output doc) of
             Some t \<Rightarrow> (Inr (Some t), tr)
           | None \<Rightarrow> (Inr None, tr @ [Print ''No model summary for this model''])))"

text \<open>
  \<^verbatim>\<open>ModelBase.scoring_history\<close>; \<open>As_data_frame t\<close> is what
  \<^verbatim>\<open>t.as_data_frame()\<close> returns.
\<close>

datatype data_frame = As_data_frame table

definition scoring_history ::
  "'v ModelBase \<Rightarrow> 'v event list \<Rightarrow> (py_error + data_frame option) \<times> 'v event list" where
  "scoring_history self tr =
     (case priv_model_json self of
        None \<Rightarrow> (Inl TypeError, tr)
      | Some doc \<Rightarrow>
          (case scoring_history_table (json_output doc) of
             Some t \<Rightarrow> (Inr (Some (As_data_frame t)), tr)
           | None \<Rightarrow> (Inr None, tr @ [Print ''No score history for this model''])))"

text \<open>
  \<^verbatim>\<open>ModelBase.show\<close> (\<open>show\<close> is a keyword of Isabelle). A sub-object that is
  present counts as true in \<^verbatim>\<open>if tm: tm.show()\<close>.
\<close>

definition show_model ::
  "'v ModelBase \<Rightarrow> 'v event list \<Rightarrow> (py_error + unit) \<times> 'v event list" where
  "show_model self tr =
     (if priv_future self then
        (case priv_job self of
           None \<Rightarrow> (Inl AttributeError, tr)
         | Some j \<Rightarrow> (Inr (), tr @ [Poll_once j]))
      else
        (case priv_model_json self of
           None \<Rightarrow> (Inr (), tr @ [Print ''No model trained yet''])
         | Some doc \<Rightarrow>
             if model_id self = None
             then (Inr (), tr @ [Print ''This H2OEstimator has been removed.''])
             else
               (let model = json_output doc;
                    tr = tr @ [Print ''Model Details'', Print ''============='',
                               Print (class_name self @ '' :  '' @ algo_full_name doc),
                               Print (''Model Key:  '' @ py_str (priv_id self))];
                    (r, tr) = summary self tr;
                    tr = tr @ [Print []];
                    tr = tr @ (case training_metrics model of
                                 None \<Rightarrow> [] | Some tm \<Rightarrow> [Show_metrics tm]);
                    tr = tr @ (case validation_metrics model of
                                 None \<Rightarrow> [] | Some vm \<Rightarrow> [Show_metrics vm]);
                    tr = tr @ (case cross_validation_metrics model of
                                 None \<Rightarrow> [] | Some xm \<Rightarrow> [Show_metrics xm]);
                    tr = tr @ (case cross_validation_metrics_summary model of
                                 None \<Rightarrow> [] | Some xms \<Rightarrow> [Show_table xms]);
                    tr = tr @ (case scoring_history_table model of
                                 None \<Rightarrow> [] | Some t \<Rightarrow> [Show_table t]);
                    tr = tr @ (case variable_importances model of
                                 None \<Rightarrow> [] | Some t \<Rightarrow> [Show_table t])
                in (Inr (), tr))))"

subsection \<open>Example objects\<close>

text \<open>
  A document whose training metrics hold an MSE of 0.5 and whose validation and
  cross-validation metrics are absent, and handles that hold it.
\<close>

definition half_metrics :: "real H2OModelMetrics" where
  "half_metrics =
     \<lparr>m_r2 = 0, m_mse = 1 / 2, m_rmse = 0, m_mae = 0, m_rmsle = 0, m_logloss = 0,
      m_mean_residual_deviance = 0, m_auc = 0, m_aic = 0, m_gini = 0,
      m_residual_deviance = 3, m_residual_degrees_of_freedom = 0, m_null_deviance = 0,
      m_null_degrees_of_freedom = 0\<rparr>"

definition half_doc :: "real model_json" where
  "half_doc =
     \<lparr>algo = ''glm'', algo_full_name = ''Generalized Linear Modeling'',
      json_output =
        \<lparr>model_summary = None, scoring_history_table = None, variable_importances = None,
         training_metrics = Some half_metrics, validation_metrics = None,
         cross_validation_metrics = None, cross_validation_metrics_summary = None\<rparr>\<rparr>"

definition modelA :: "real ModelBase" where
  "modelA =
     \<lparr>class_name = ''ModelBase'', priv_id = Some ''modelA'', priv_model_json = Some half_doc,
      parms = [], priv_future = False, priv_job = None\<rparr>"

text \<open>A handle returned before its training job has finished.\<close>

definition pending_model :: "real ModelBase" where
  "pending_model =
     \<lparr>class_name = ''ModelBase'', priv_id = None, priv_model_json = None, parms = [],
      priv_future = True, priv_job = Some (H2OJob ''job1'')\<rparr>"

text \<open>A cluster on which every command fails.\<close>

definition failing_remote :: "string \<Rightarrow> py_error option" where
  "failing_remote expr = Some (RemoteError ''rename failed'')"

text \<open>
  The parameters of a model trained on the frame \<^verbatim>\<open>X\<close> without a validation frame:
  the cluster reports \<^verbatim>\<open>null\<close> as the actual value of \<^verbatim>\<open>validation_frame\<close>.
\<close>

definition no_validation_model :: "real ModelBase" where
  "no_validation_model =
     \<lparr>class_name = ''ModelBase'', priv_id = Some ''modelA'', priv_model_json = Some half_doc,
      parms =
        [(''training_frame'',
            \<lparr>default_value = JNull, actual_value = JDict [(''name'', JStr ''X'')]\<rparr>),
         (''validation_frame'', \<lparr>default_value = JNull, actual_value = JNull\<rparr>),
         (''ntrees'', \<lparr>default_value = JNum 50, actual_value = JNum 10\<rparr>)],
      priv_future = False, priv_job = None\<rparr>"

definition trained_model :: "real ModelBase" where
  "trained_model =
     \<lparr>class_name = ''ModelBase'', priv_id = Some ''modelA'', priv_model_json = Some half_doc,
      parms =
        [(''training_frame'',
            \<lparr>default_value = JNull, actual_value = JDict [(''name'', JStr ''X'')]\<rparr>),
         (''ntrees'', \<lparr>default_value = JNum 50, actual_value = JNum 10\<rparr>)],
      priv_future = False, priv_job = None\<rparr>"

section \<open>Properties\<close>

lemma get_metrics_cases:
  assumes "priv_model_json self = Some doc"
  shows "get_metrics self train valid xval =
     Inr ((if train then [(''train'', training_metrics (json_output doc))] else []) @
          (if valid then [(''valid'', validation_metrics (json_output doc))] else []) @
          (if xval then [(''xval'', cross_validation_metrics (json_output doc))] else []) @
          (if \<not> train \<and> \<not> valid \<and> \<not> xval
           then [(''train'', training_metrics (json_output doc))] else []))"
  using assms by (simp add: get_metrics_def Let_def)

subsection \<open>Helper facts about metric selection\<close>

lemma get_metrics_None:
  "priv_model_json self = None \<Longrightarrow> get_metrics self train valid xval = Inl TypeError"
  by (simp add: get_metrics_def)

lemma get_metrics_Inr_doc:
  "get_metrics self train valid xval = Inr tm \<Longrightarrow> \<exists>doc. priv_model_json self = Some doc"
  by (cases "priv_model_json self") (simp_all add: get_metrics_def)

lemma scalar_fold:
  assumes "get_metrics self train valid xval = Inr tm"
  shows "foldl (\<lambda>m (k, v).
           AList.update k (case v of None \<Rightarrow> None | Some x \<Rightarrow> Some (f x)) m) [] tm =
         map (\<lambda>(k, v). (k, map_option f v)) tm"
proof -
  obtain doc where doc: "priv_model_json self = Some doc"
    using assms get_metrics_Inr_doc by blast
  have opt: "\<And>v. (case v of None \<Rightarrow> None | Some x \<Rightarrow> Some (f x)) = map_option f v"
    by (simp split: option.splits)
  from assms show ?thesis
    unfolding get_metrics_cases [OF doc] opt
    by (cases train; cases valid; cases xval) auto
qed

lemma hd_single:
  "length tm = 1 \<Longrightarrow> snd (hd (map (\<lambda>(k, v). (k, g v)) tm)) = g (snd (hd tm))"
  by (cases tm) auto

subsection \<open>Metric selection resolves to the roles requested\<close>

text \<open>
  C2. For every combination of the selectors \<open>train\<close>, \<open>valid\<close>, \<open>xval\<close> and every
  handle that holds a document, \<^verbatim>\<open>_get_metrics\<close> returns a dictionary whose keys are
  exactly the roles whose selector is true, each bound to that role's metrics block of the
  document; when all three selectors are false the dictionary is the single entry
  \<open>train\<close>, bound to the training metrics.
\<close>

theorem get_metrics_roles:
  assumes "priv_model_json self = Some doc"
  shows "\<exists>tm. get_metrics self train valid xval = Inr tm \<and>
           distinct (map fst tm) \<and>
           set (map fst tm) =
             (if \<not> train \<and> \<not> valid \<and> \<not> xval then {''train''}
              else {r. (r = ''train'' \<and> train) \<or> (r = ''valid'' \<and> valid) \<or>
                       (r = ''xval'' \<and> xval)}) \<and>
           (if \<not> train \<and> \<not> valid \<and> \<not> xval
            then tm = [(''train'', training_metrics (json_output doc))]
            else map_of tm ''train'' =
                   (if train then Some (training_metrics (json_output doc)) else None) \<and>
                 map_of tm ''valid'' =
                   (if valid then Some (validation_metrics (json_output doc)) else None) \<and>
                 map_of tm ''xval'' =
                   (if xval then Some (cross_validation_metrics (json_output doc))
                    else None))"
  unfolding get_metrics_cases [OF assms]
  by (cases train; cases valid; cases xval) auto

theorem get_metrics_roles_witness:
  "priv_model_json modelA = Some half_doc \<and>
   (\<exists>tm. get_metrics modelA True True False = Inr tm \<and>
         set (map fst tm) = {''train'', ''valid''} \<and>
         map_of tm ''train'' = Some (Some half_metrics) \<and>
         map_of tm ''valid'' = Some None)"
proof -
  have doc: "priv_model_json modelA = Some half_doc"
    by (simp add: modelA_def)
  have sel: "{r. r = ''train'' \<or> r = ''valid''} = {''train'', ''valid''}"
    by auto
  show ?thesis
    using get_metrics_roles [OF doc, of True True False] doc
    by (auto simp add: half_doc_def sel)
qed

subsection \<open>The deviance and degrees-of-freedom family\<close>

text \<open>
  C3. For each of \<^verbatim>\<open>residual_deviance\<close>, \<^verbatim>\<open>residual_degrees_of_freedom\<close>,
  \<^verbatim>\<open>null_deviance\<close> and \<^verbatim>\<open>null_degrees_of_freedom\<close>, a call with both
  \<open>train\<close> and \<open>valid\<close> true reads the training metrics only: it returns the
  statistic of the training block (the method call fails where that block is
  \<^verbatim>\<open>None\<close>), whatever the validation block holds, and never a dictionary. The general
  selection, and the scalar accessor \<^verbatim>\<open>mse\<close> built on it, resolve the same selectors
  to both roles.
\<close>

theorem deviance_family_train_wins:
  assumes "priv_model_json self = Some doc"
  shows "residual_deviance self True True False =
           (case training_metrics (json_output doc) of
              None \<Rightarrow> Inl AttributeError
            | Some tm \<Rightarrow> Inr (m_residual_deviance tm)) \<and>
         residual_degrees_of_freedom self True True False =
           (case training_metrics (json_output doc) of
              None \<Rightarrow> Inl AttributeError
            | Some tm \<Rightarrow> Inr (m_residual_degrees_of_freedom tm)) \<and>
         null_deviance self True True False =
           (case training_metrics (json_output doc) of
              None \<Rightarrow> Inl AttributeError
            | Some tm \<Rightarrow> Inr (m_null_deviance tm)) \<and>
         null_degrees_of_freedom self True True False =
           (case training_metrics (json_output doc) of
              None \<Rightarrow> Inl AttributeError
            | Some tm \<Rightarrow> Inr (m_null_degrees_of_freedom tm)) \<and>
         get_metrics self True True False =
           Inr [(''train'', training_metrics (json_output doc)),
                (''valid'', validation_metrics (json_output doc))] \<and>
         mse self True True False =
           Inr (By_role
                 [(''train'', map_option m_mse (training_metrics (json_output doc))),
                  (''valid'', map_option m_mse (validation_metrics (json_output doc)))])"
  using assms
  by (simp add: residual_deviance_def residual_degrees_of_freedom_def null_deviance_def
      null_degrees_of_freedom_def get_metrics_def mse_def Let_def split: option.splits)

theorem deviance_family_train_wins_witness:
  "priv_model_json modelA = Some half_doc \<and>
   residual_deviance modelA True True False = Inr 3 \<and>
   mse modelA True True False = Inr (By_role [(''train'', Some (1 / 2)), (''valid'', None)])"
proof -
  have doc: "priv_model_json modelA = Some half_doc"
    by (simp add: modelA_def)
  show ?thesis
    using deviance_family_train_wins [OF doc] doc
    by (simp add: half_doc_def half_metrics_def)
qed

text \<open>
  C4. For each accessor of the family and every \<open>train\<close> and \<open>valid\<close>, a call with
  \<open>xval\<close> true raises \<^verbatim>\<open>H2OValueError("Cross-validation metrics are not available.")\<close>,
  the exception by which this code base reports an unsupported operation. It does so
  for every handle, also one without a document: no metrics are looked up before.
\<close>

theorem deviance_family_xval:
  "residual_deviance self train valid True =
     Inl (H2OValueError ''Cross-validation metrics are not available.'') \<and>
   residual_degrees_of_freedom self train valid True =
     Inl (H2OValueError ''Cross-validation metrics are not available.'') \<and>
   null_deviance self train valid True =
     Inl (H2OValueError ''Cross-validation metrics are not available.'') \<and>
   null_degrees_of_freedom self train valid True =
     Inl (H2OValueError ''Cross-validation metrics are not available.'')"
  by (simp add: residual_deviance_def residual_degrees_of_freedom_def null_deviance_def
      null_degrees_of_freedom_def)

subsection \<open>Scalar accessors unwrap a single role\<close>

text \<open>
  C7. Each of the ten scalar accessors (\<^verbatim>\<open>r2\<close>, \<^verbatim>\<open>mse\<close>, \<^verbatim>\<open>rmse\<close>, \<^verbatim>\<open>mae\<close>,
  \<^verbatim>\<open>rmsle\<close>, \<^verbatim>\<open>logloss\<close>, \<^verbatim>\<open>mean_residual_deviance\<close>, \<^verbatim>\<open>auc\<close>, \<^verbatim>\<open>aic\<close>,
  \<^verbatim>\<open>gini\<close>) returns, where the selection \<open>tm\<close> has exactly one role, that role's
  statistic directly (\<^verbatim>\<open>None\<close> where the role has no metrics block), and otherwise the
  dictionary from each selected role to its statistic. Exactly one role is selected
  unless two selectors are true. On a document whose training metrics \<open>mt\<close> are present
  and whose validation metrics are absent, \<^verbatim>\<open>mse()\<close> returns the MSE of \<open>mt\<close> and
  \<^verbatim>\<open>mse(valid=True)\<close> returns \<^verbatim>\<open>None\<close>; the witness is the document with an MSE of
  0.5.
\<close>

theorem scalar_accessors:
  assumes "priv_model_json self = Some doc"
    and "get_metrics self train valid xval = Inr tm"
  shows "r2 self train valid xval =
           Inr (if length tm = 1 then Scalar (map_option m_r2 (snd (hd tm)))
                else By_role (map (\<lambda>(k, v). (k, map_option m_r2 v)) tm)) \<and>
         mse self train valid xval =
           Inr (if length tm = 1 then Scalar (map_option m_mse (snd (hd tm)))
                else By_role (map (\<lambda>(k, v). (k, map_option m_mse v)) tm)) \<and>
         rmse self train valid xval =
           Inr (if length tm = 1 then Scalar (map_option m_rmse (snd (hd tm)))
                else By_role (map (\<lambda>(k, v). (k, map_option m_rmse v)) tm)) \<and>
         mae self train valid xval =
           Inr (if length tm = 1 then Scalar (map_option m_mae (snd (hd tm)))
                else By_role (map (\<lambda>(k, v). (k, map_option m_mae v)) tm)) \<and>
         rmsle self train valid xval =
           Inr (if length tm = 1 then Scalar (map_option m_rmsle (snd (hd tm)))
                else By_role (map (\<lambda>(k, v). (k, map_option m_rmsle v)) tm)) \<and>
         logloss self train valid xval =
           Inr (if length tm = 1 then Scalar (map_option m_logloss (snd (hd tm)))
                else By_role (map (\<lambda>(k, v). (k, map_option m_logloss v)) tm)) \<and>
         mean_residual_deviance self train valid xval =
           Inr (if length tm = 1
                then Scalar (map_option m_mean_residual_deviance (snd (hd tm)))
                else By_role (map (\<lambda>(k, v). (k, map_option m_mean_residual_deviance v)) tm)) \<and>
         auc self train valid xval =
           Inr (if length tm = 1 then Scalar (map_option m_auc (snd (hd tm)))
                else By_role (map (\<lambda>(k, v). (k, map_option m_auc v)) tm)) \<and>
         aic self train valid xval =
           Inr (if length tm = 1 then Scalar (map_option m_aic (snd (hd tm)))
                else By_role (map (\<lambda>(k, v). (k, map_option m_aic v)) tm)) \<and>
         gini self train valid xval =
           Inr (if length tm = 1 then Scalar (map_option m_gini (snd (hd tm)))
                else By_role (map (\<lambda>(k, v). (k, map_option m_gini v)) tm)) \<and>
         (length tm = 1) = (\<not> (train \<and> valid) \<and> \<not> (train \<and> xval) \<and> \<not> (valid \<and> xval)) \<and>
         (training_metrics (json_output doc) = Some mt \<and>
          validation_metrics (json_output doc) = None \<longrightarrow>
            mse self False False False = Inr (Scalar (Some (m_mse mt))) \<and>
            mse self False True False = Inr (Scalar None))"
proof -
  note gm = assms(2)
  have one: "(length tm = 1) = (\<not> (train \<and> valid) \<and> \<not> (train \<and> xval) \<and> \<not> (valid \<and> xval))"
    using gm unfolding get_metrics_cases [OF assms(1)]
    by (cases train; cases valid; cases xval) auto
  have scen: "training_metrics (json_output doc) = Some mt \<and>
          validation_metrics (json_output doc) = None \<longrightarrow>
            mse self False False False = Inr (Scalar (Some (m_mse mt))) \<and>
            mse self False True False = Inr (Scalar None)"
    by (simp add: mse_def get_metrics_cases [OF assms(1)])
  have "r2 self train valid xval =
           Inr (if length tm = 1 then Scalar (map_option m_r2 (snd (hd tm)))
                else By_role (map (\<lambda>(k, v). (k, map_option m_r2 v)) tm))"
    using gm by (simp add: r2_def Let_def scalar_fold [OF gm] hd_single)
  moreover have "mse self train valid xval =
           Inr (if length tm = 1 then Scalar (map_option m_mse (snd (hd tm)))
                else By_role (map (\<lambda>(k, v). (k, map_option m_mse v)) tm))"
    using gm by (simp add: mse_def Let_def scalar_fold [OF gm] hd_single)
  moreover have "rmse self train valid xval =
           Inr (if length tm = 1 then Scalar (map_option m_rmse (snd (hd tm)))
                else By_role (map (\<lambda>(k, v). (k, map_option m_rmse v)) tm))"
    using gm by (simp add: rmse_def Let_def scalar_fold [OF gm] hd_single)
  moreover have "mae self train valid xval =
           Inr (if length tm = 1 then Scalar (map_option m_mae (snd (hd tm)))
                else By_role (map (\<lambda>(k, v). (k, map_option m_mae v)) tm))"
    using gm by (simp add: mae_def Let_def scalar_fold [OF gm] hd_single)
  moreover have "rmsle self train valid xval =
           Inr (if length tm = 1 then Scalar (map_option m_rmsle (snd (hd tm)))
                else By_role (map (\<lambda>(k, v). (k, map_option m_rmsle v)) tm))"
    using gm by (simp add: rmsle_def Let_def scalar_fold [OF gm] hd_single)
  moreover have "logloss self train valid xval =
           Inr (if length tm = 1 then Scalar (map_option m_logloss (snd (hd tm)))
                else By_role (map (\<lambda>(k, v). (k, map_option m_logloss v)) tm))"
    using gm by (simp add: logloss_def Let_def scalar_fold [OF gm] hd_single)
  moreover have "mean_residual_deviance self train valid xval =
           Inr (if length tm = 1
                then Scalar (map_option m_mean_residual_deviance (snd (hd tm)))
                else By_role (map (\<lambda>(k, v). (k, map_option m_mean_residual_deviance v)) tm))"
    using gm by (simp add: mean_residual_deviance_def Let_def scalar_fold [OF gm] hd_single)
  moreover have "auc self train valid xval =
           Inr (if length tm = 1 then Scalar (map_option m_auc (snd (hd tm)))
                else By_role (map (\<lambda>(k, v). (k, map_option m_auc v)) tm))"
    using gm by (simp add: auc_def Let_def scalar_fold [OF gm] hd_single)
  moreover have "aic self train valid xval =
           Inr (if length tm = 1 then Scalar (map_option m_aic (snd (hd tm)))
                else By_role (map (\<lambda>(k, v). (k, map_option m_aic v)) tm))"
    using gm by (simp add: aic_def Let_def scalar_fold [OF gm] hd_single)
  moreover have "gini self train valid xval =
           Inr (if length tm = 1 then Scalar (map_option m_gini (snd (hd tm)))
                else By_role (map (\<lambda>(k, v). (k, map_option m_gini v)) tm))"
    using gm by (simp add: gini_def Let_def scalar_fold [OF gm] hd_single)
  ultimately show ?thesis
    using one scen by blast
qed

theorem scalar_accessors_witness:
  "priv_model_json modelA = Some half_doc \<and>
   get_metrics modelA False True False = Inr [(''valid'', None)] \<and>
   training_metrics (json_output half_doc) = Some half_metrics \<and>
   validation_metrics (json_output half_doc) = None \<and>
   m_mse half_metrics = 1 / 2 \<and>
   mse modelA False False False = Inr (Scalar (Some (1 / 2))) \<and>
   mse modelA False True False = Inr (Scalar None) \<and>
   auc modelA False True False = Inr (Scalar None)"
proof -
  have doc: "priv_model_json modelA = Some half_doc"
    by (simp add: modelA_def)
  have gm: "get_metrics modelA False True False = Inr [(''valid'', None)]"
    by (simp add: get_metrics_cases [OF doc] half_doc_def)
  have tv: "training_metrics (json_output half_doc) = Some half_metrics"
    "validation_metrics (json_output half_doc) = None" "m_mse half_metrics = 1 / 2"
    by (simp_all add: half_doc_def half_metrics_def)
  show ?thesis
    using scalar_accessors [OF doc gm, of half_metrics] doc gm tv by simp
qed


subsection \<open>Stored model metrics: one block, train before valid before xval\<close>

text \<open>
  C10. With \<^verbatim>\<open>test_data\<close> absent and a document present, \<^verbatim>\<open>model_performance\<close>
  returns one metrics block, never a dictionary by role: the training block when
  \<open>train\<close> is true or all three selectors are false, otherwise the validation block
  when \<open>valid\<close> is true, otherwise the cross-validation block. The shared selection
  \<^verbatim>\<open>_get_metrics\<close> differs: with \<open>train\<close> and \<open>valid\<close> both true it holds both
  roles.
\<close>

theorem model_performance_priority:
  assumes "priv_model_json self = Some doc"
  shows "model_performance api metrics_class self None train valid xval =
           Inr (if train \<or> (\<not> valid \<and> \<not> xval) then training_metrics (json_output doc)
                else if valid then validation_metrics (json_output doc)
                else cross_validation_metrics (json_output doc)) \<and>
         get_metrics self True True xval =
           Inr ([(''train'', training_metrics (json_output doc)),
                 (''valid'', validation_metrics (json_output doc))] @
                (if xval then [(''xval'', cross_validation_metrics (json_output doc))] else []))"
  using assms by (simp add: model_performance_def get_metrics_cases [OF assms])

theorem model_performance_priority_witness:
  "priv_model_json modelA = Some half_doc \<and>
   model_performance (\<lambda>path. Inr ([] :: unit model_metrics_entry list))
     (\<lambda>raw algo. half_metrics) modelA None True True True = Inr (Some half_metrics) \<and>
   get_metrics modelA True True True =
     Inr [(''train'', Some half_metrics), (''valid'', None), (''xval'', None)]"
proof -
  have doc: "priv_model_json modelA = Some half_doc"
    by (simp add: modelA_def)
  show ?thesis
    using model_performance_priority [OF doc, of _ _ True True True] doc
    by (simp add: half_doc_def)
qed


subsection \<open>The three parameter views\<close>

lemma dict_get_key:
  "k \<in> fst ` set d \<Longrightarrow> \<exists>v. map_of d k = Some v \<and> dict_get d k = Inr v"
  by (cases "map_of d k") (auto simp add: dict_get_def map_of_eq_None_iff)

lemma default_params_loop_lookup:
  "set ps \<subseteq> fst ` set d \<Longrightarrow>
   \<exists>r. default_params_loop d ps acc = Inr r \<and>
       (\<forall>q. map_of r q =
          (if q \<in> set ps then map_option default_value (map_of d q) else map_of acc q))"
proof (induction ps arbitrary: acc)
  case Nil
  then show ?case by simp
next
  case (Cons p ps)
  obtain e where e: "map_of d p = Some e" "dict_get d p = Inr e"
    using Cons.prems dict_get_key [of p d] by auto
  from Cons.prems have "set ps \<subseteq> fst ` set d" by simp
  from Cons.IH [OF this, of "AList.update p (default_value e) acc"]
  obtain r where r: "default_params_loop d ps (AList.update p (default_value e) acc) = Inr r"
    "\<And>q. map_of r q = (if q \<in> set ps then map_option default_value (map_of d q)
                        else map_of (AList.update p (default_value e) acc) q)"
    by blast
  show ?case
    using e r by (auto simp add: update_conv')
qed

lemma params_loop_lookup:
  "set ps \<subseteq> fst ` set d \<Longrightarrow>
   \<exists>r. params_loop d ps acc = Inr r \<and>
       (\<forall>q. map_of r q =
          (if q \<in> set ps
           then map_option (\<lambda>e. [(''default'', default_value e), (''actual'', actual_value e)])
                  (map_of d q)
           else map_of acc q))"
proof (induction ps arbitrary: acc)
  case Nil
  then show ?case by simp
next
  case (Cons p ps)
  obtain e where e: "map_of d p = Some e" "dict_get d p = Inr e"
    using Cons.prems dict_get_key [of p d] by auto
  let ?acc = "AList.update p [(''default'', default_value e), (''actual'', actual_value e)] acc"
  from Cons.prems have "set ps \<subseteq> fst ` set d" by simp
  from Cons.IH [OF this, of ?acc]
  obtain r where r: "params_loop d ps ?acc = Inr r"
    "\<And>q. map_of r q =
       (if q \<in> set ps
        then map_option (\<lambda>e. [(''default'', default_value e), (''actual'', actual_value e)])
               (map_of d q)
        else map_of ?acc q)"
    by blast
  show ?case
    using e r by (auto simp add: update_conv')
qed


text \<open>
  C8. For every parameter name \<open>p\<close> of \<^verbatim>\<open>self.parms\<close>, with entry \<open>e\<close>: the three
  views exist and agree on \<open>p\<close>. \<^verbatim>\<open>full_parameters[p]\<close> is the entry itself, so its
  default component is \<^verbatim>\<open>default_params[p]\<close> and its actual component is the raw actual
  value; \<^verbatim>\<open>params[p]\<close> is the pair of the two, under the keys \<^verbatim>\<open>default\<close> and
  \<^verbatim>\<open>actual\<close>.
\<close>

theorem parameter_views_agree:
  assumes "map_of (parms self) p = Some e"
  shows "\<exists>dp ps. default_params self = Inr dp \<and> params self = Inr ps \<and>
           map_of (full_parameters self) p = Some e \<and>
           map_of dp p = Some (default_value e) \<and>
           map_of ps p = Some [(''default'', default_value e), (''actual'', actual_value e)]"
proof -
  have key: "p \<in> set (map fst (parms self))"
    using assms by (metis domI dom_map_of_conv_image_fst set_map)
  obtain dp where dp: "default_params self = Inr dp"
    "\<And>q. map_of dp q = (if q \<in> set (map fst (parms self))
                         then map_option default_value (map_of (parms self) q) else None)"
    using default_params_loop_lookup [of "map fst (parms self)" "parms self" "[]"]
    by (auto simp add: default_params_def)
  obtain ps where ps: "params self = Inr ps"
    "\<And>q. map_of ps q =
       (if q \<in> set (map fst (parms self))
        then map_option (\<lambda>e. [(''default'', default_value e), (''actual'', actual_value e)])
               (map_of (parms self) q)
        else None)"
    using params_loop_lookup [of "map fst (parms self)" "parms self" "[]"]
    by (auto simp add: params_def)
  show ?thesis
    using assms key dp ps by (simp add: full_parameters_def)
qed

theorem parameter_views_agree_witness:
  "\<exists>dp ps. default_params trained_model = Inr dp \<and> params trained_model = Inr ps \<and>
     map_of (full_parameters trained_model) ''ntrees'' =
       Some \<lparr>default_value = JNum 50, actual_value = JNum 10\<rparr> \<and>
     map_of dp ''ntrees'' = Some (JNum 50) \<and>
     map_of ps ''ntrees'' = Some [(''default'', JNum 50), (''actual'', JNum 10)]"
proof -
  have e: "map_of (parms trained_model) ''ntrees'' =
             Some \<lparr>default_value = JNum 50, actual_value = JNum 10\<rparr>"
    by (simp add: trained_model_def)
  show ?thesis
    using parameter_views_agree [OF e] by simp
qed


text \<open>
  What \<^verbatim>\<open>actual_params\<close> holds when it returns: a reference parameter whose
  actual value is a dictionary is bound to the selected sub-field (\<^verbatim>\<open>None\<close> where the
  sub-field is missing), and every other parameter to its raw actual value.
\<close>

lemma actual_params_loop_keep:
  "actual_params_loop d ps acc = Inr r \<Longrightarrow> q \<notin> set ps \<Longrightarrow> map_of r q = map_of acc q"
proof (induction ps arbitrary: acc)
  case Nil
  then show ?case by simp
next
  case (Cons p ps)
  then show ?case
    by (auto simp add: update_conv' split: if_splits sum.splits)
qed

lemma actual_params_loop_select:
  "actual_params_loop d ps acc = Inr r \<Longrightarrow> q \<in> set ps \<Longrightarrow> map_of d q = Some e \<Longrightarrow>
   map_of params_to_select q = Some sel \<Longrightarrow> actual_value e = JDict dd \<Longrightarrow>
   map_of r q = Some (case map_of dd sel of None \<Rightarrow> JNull | Some v \<Rightarrow> v)"
proof (induction ps arbitrary: acc)
  case Nil
  then show ?case by simp
next
  case (Cons p ps)
  show ?case
  proof (cases "q \<in> set ps")
    case True
    with Cons show ?thesis
      by (auto split: if_splits sum.splits)
  next
    case False
    with Cons.prems have qp: "q = p" by simp
    have sel: "p \<in> set (map fst params_to_select)" "dict_get params_to_select p = Inr sel"
      using Cons.prems(4) qp
      by (auto simp add: dict_get_def dest: map_of_SomeD intro: rev_image_eqI)
    have ent: "dict_get d p = Inr e"
      using Cons.prems(3) qp by (simp add: dict_get_def)
    let ?v = "case map_of dd sel of None \<Rightarrow> JNull | Some v \<Rightarrow> v"
    have step: "actual_params_loop d ps (AList.update p ?v acc) = Inr r"
      using Cons.prems(1) sel ent Cons.prems(5) by simp
    from actual_params_loop_keep [OF step False]
    show ?thesis
      by (simp add: update_conv' qp)
  qed
qed

lemma actual_params_loop_raw:
  "actual_params_loop d ps acc = Inr r \<Longrightarrow> q \<in> set ps \<Longrightarrow> map_of d q = Some e \<Longrightarrow>
   q \<notin> set (map fst params_to_select) \<Longrightarrow> map_of r q = Some (actual_value e)"
proof (induction ps arbitrary: acc)
  case Nil
  then show ?case by simp
next
  case (Cons p ps)
  show ?case
  proof (cases "q \<in> set ps")
    case True
    with Cons show ?thesis
      by (auto split: if_splits sum.splits)
  next
    case False
    with Cons.prems have qp: "q = p" by simp
    have ent: "dict_get d p = Inr e"
      using Cons.prems(3) qp by (simp add: dict_get_def)
    have step: "actual_params_loop d ps (AList.update p (actual_value e) acc) = Inr r"
      using Cons.prems(1) Cons.prems(4) ent qp by simp
    from actual_params_loop_keep [OF step False]
    show ?thesis
      by (simp add: update_conv' qp)
  qed
qed

lemma parms_key: "map_of (parms self) p = Some e \<Longrightarrow> p \<in> set (map fst (parms self))"
  by (metis domI dom_map_of_conv_image_fst set_map)

lemma actual_params_unwraps:
  assumes "actual_params self = Inr ap"
    and "map_of (parms self) p = Some e"
    and "map_of params_to_select p = Some sel"
    and "actual_value e = JDict dd"
  shows "map_of ap p = Some (case map_of dd sel of None \<Rightarrow> JNull | Some v \<Rightarrow> v)"
  using actual_params_loop_select [OF assms(1) [unfolded actual_params_def]
      parms_key [OF assms(2)] assms(2) assms(3) assms(4)] .

lemma actual_params_training_frame:
  assumes "actual_params self = Inr ap"
    and "map_of (parms self) ''training_frame'' = Some e"
    and "actual_value e = JDict [(''name'', JStr x)]"
  shows "map_of ap ''training_frame'' = Some (JStr x)"
  using actual_params_unwraps [OF assms(1) assms(2) _ assms(3), of "''name''"]
  by (simp add: params_to_select_def)

lemma actual_params_raw:
  assumes "actual_params self = Inr ap"
    and "map_of (parms self) p = Some e"
    and "p \<notin> set (map fst params_to_select)"
  shows "map_of ap p = Some (actual_value e)"
  using actual_params_loop_raw [OF assms(1) [unfolded actual_params_def]
      parms_key [OF assms(2)] assms(2) assms(3)] .

lemma actual_params_trained_model:
  "actual_params trained_model = Inr [(''training_frame'', JStr ''X''), (''ntrees'', JNum 10)]"
  by (simp add: trained_model_def actual_params_def params_to_select_def dict_get_def)

text \<open>
  C9. The specification states that whenever \<^verbatim>\<open>training_frame\<close> has the actual value
  \<^verbatim>\<open>{"name": "X"}\<close>, \<^verbatim>\<open>actual_params\<close> maps \<^verbatim>\<open>training_frame\<close> to \<^verbatim>\<open>"X"\<close>. The
  code at the parameters of a model trained without a validation frame: the actual value
  of \<^verbatim>\<open>validation_frame\<close> is \<^verbatim>\<open>null\<close>, the call \<^verbatim>\<open>None.get("name", None)\<close> raises
  \<^verbatim>\<open>AttributeError\<close>, and no dictionary is returned at all.
\<close>

theorem actual_params_null_reference:
  "map_of (parms no_validation_model) ''training_frame'' =
     Some \<lparr>default_value = JNull, actual_value = JDict [(''name'', JStr ''X'')]\<rparr> \<and>
   map_of (parms no_validation_model) ''validation_frame'' =
     Some \<lparr>default_value = JNull, actual_value = JNull\<rparr> \<and>
   actual_params no_validation_model = Inl AttributeError"
  by (simp add: no_validation_model_def actual_params_def params_to_select_def dict_get_def)


subsection \<open>Renaming\<close>

text \<open>
  C1, as the code has it. The setter assigns the new identifier first and then issues
  exactly one remote command, \<^verbatim>\<open>(rename "old" "new")\<close>. The outcome of the setter is the
  outcome of that command, so a remote failure reaches the caller; the local identifier
  is the new one afterwards in either case, and no other field changes.
\<close>

theorem model_id_setter_effect:
  "snd (snd (model_id_setter remote self newid tr)) =
     tr @ [Rapids (rename_expr (priv_id self) newid)] \<and>
   fst (snd (model_id_setter remote self newid tr)) = self\<lparr>priv_id := Some newid\<rparr> \<and>
   priv_id (fst (snd (model_id_setter remote self newid tr))) = Some newid \<and>
   fst (model_id_setter remote self newid tr) =
     (case remote (rename_expr (priv_id self) newid) of None \<Rightarrow> Inr () | Some e \<Rightarrow> Inl e)"
  by (simp add: model_id_setter_def rapids_def Let_def)


text \<open>
  The specification's statement that a failed remote rename leaves the local identifier at \<^verbatim>\<open>"modelA"\<close>
  fails: on a cluster that rejects the command, the one call is issued, its error is
  raised, and the handle is named \<^verbatim>\<open>"modelB"\<close>.
\<close>

theorem model_id_setter_counterexample:
  "priv_id modelA = Some ''modelA'' \<and>
   fst (model_id_setter failing_remote modelA ''modelB'' []) =
     Inl (RemoteError ''rename failed'') \<and>
   snd (snd (model_id_setter failing_remote modelA ''modelB'' [])) =
     [Rapids (rename_expr (Some ''modelA'') ''modelB'')] \<and>
   priv_id (fst (snd (model_id_setter failing_remote modelA ''modelB'' []))) =
     Some ''modelB'' \<and>
   priv_id (fst (snd (model_id_setter failing_remote modelA ''modelB'' []))) \<noteq>
     Some ''modelA''"
  by (simp add: model_id_setter_def rapids_def Let_def modelA_def failing_remote_def)


subsection \<open>Reads of a handle without a document\<close>

text \<open>
  C5, as the code has it. On a handle whose document is absent and that has no pending
  job, \<^verbatim>\<open>show()\<close> prints \<^verbatim>\<open>No model trained yet\<close> and returns; it is the only read
  with such a guard. \<^verbatim>\<open>summary\<close>, \<^verbatim>\<open>scoring_history\<close>, the metric selection, the
  ten scalar accessors, the deviance family (with \<open>xval\<close> false) and
  \<^verbatim>\<open>model_performance\<close> without test data subscript the absent document, which raises
  \<^verbatim>\<open>TypeError\<close>, and print nothing.
\<close>

theorem absent_document_reads:
  assumes "priv_model_json self = None" and "\<not> priv_future self"
  shows "show_model self tr = (Inr (), tr @ [Print ''No model trained yet'']) \<and>
         summary self tr = (Inl TypeError, tr) \<and>
         scoring_history self tr = (Inl TypeError, tr) \<and>
         get_metrics self train valid xval = Inl TypeError \<and>
         r2 self train valid xval = Inl TypeError \<and>
         mse self train valid xval = Inl TypeError \<and>
         rmse self train valid xval = Inl TypeError \<and>
         mae self train valid xval = Inl TypeError \<and>
         rmsle self train valid xval = Inl TypeError \<and>
         logloss self train valid xval = Inl TypeError \<and>
         mean_residual_deviance self train valid xval = Inl TypeError \<and>
         auc self train valid xval = Inl TypeError \<and>
         aic self train valid xval = Inl TypeError \<and>
         gini self train valid xval = Inl TypeError \<and>
         residual_deviance self train valid False = Inl TypeError \<and>
         residual_degrees_of_freedom self train valid False = Inl TypeError \<and>
         null_deviance self train valid False = Inl TypeError \<and>
         null_degrees_of_freedom self train valid False = Inl TypeError \<and>
         model_performance api metrics_class self None train valid xval = Inl TypeError"
proof -
  note gm = get_metrics_None [OF assms(1)]
  have "show_model self tr = (Inr (), tr @ [Print ''No model trained yet''])"
    using assms by (simp add: show_model_def)
  moreover have "summary self tr = (Inl TypeError, tr)"
    "scoring_history self tr = (Inl TypeError, tr)"
    using assms by (simp_all add: summary_def scoring_history_def)
  moreover have "r2 self train valid xval = Inl TypeError"
    "mse self train valid xval = Inl TypeError"
    "rmse self train valid xval = Inl TypeError"
    "mae self train valid xval = Inl TypeError"
    "rmsle self train valid xval = Inl TypeError"
    "logloss self train valid xval = Inl TypeError"
    "mean_residual_deviance self train valid xval = Inl TypeError"
    "auc self train valid xval = Inl TypeError"
    "aic self train valid xval = Inl TypeError"
    "gini self train valid xval = Inl TypeError"
    by (simp_all add: gm r2_def mse_def rmse_def mae_def rmsle_def logloss_def
        mean_residual_deviance_def auc_def aic_def gini_def)
  moreover have "residual_deviance self train valid False = Inl TypeError"
    "residual_degrees_of_freedom self train valid False = Inl TypeError"
    "null_deviance self train valid False = Inl TypeError"
    "null_degrees_of_freedom self train valid False = Inl TypeError"
    using assms(1)
    by (simp_all add: residual_deviance_def residual_degrees_of_freedom_def null_deviance_def
        null_degrees_of_freedom_def)
  moreover have "model_performance api metrics_class self None train valid xval = Inl TypeError"
    using assms(1) by (simp add: model_performance_def)
  ultimately show ?thesis
    using gm by simp
qed

theorem absent_document_reads_witness:
  "priv_model_json (ModelBase_init :: real ModelBase) = None \<and>
   \<not> priv_future (ModelBase_init :: real ModelBase) \<and>
   show_model (ModelBase_init :: real ModelBase) [] = (Inr (), [Print ''No model trained yet'']) \<and>
   scoring_history (ModelBase_init :: real ModelBase) [] = (Inl TypeError, []) \<and>
   auc (ModelBase_init :: real ModelBase) True False False = Inl TypeError"
proof -
  have a: "priv_model_json (ModelBase_init :: real ModelBase) = None"
    "\<not> priv_future (ModelBase_init :: real ModelBase)"
    by (simp_all add: ModelBase_init_def)
  show ?thesis
    using absent_document_reads [OF a, of "[]" True False False
        "\<lambda>path. Inr ([] :: unit model_metrics_entry list)" "\<lambda>raw algo. half_metrics"] a
    by simp
qed


text \<open>
  The specification's statement that every derived read of such a handle fails with a descriptive signal and
  never with a null-reference error fails on the freshly constructed handle:
  \<^verbatim>\<open>summary()\<close> and \<^verbatim>\<open>mse()\<close> raise the \<^verbatim>\<open>TypeError\<close> of subscripting \<^verbatim>\<open>None\<close>.
\<close>

theorem absent_document_counterexample:
  "priv_model_json (ModelBase_init :: real ModelBase) = None \<and>
   \<not> priv_future (ModelBase_init :: real ModelBase) \<and>
   priv_job (ModelBase_init :: real ModelBase) = None \<and>
   summary (ModelBase_init :: real ModelBase) [] = (Inl TypeError, []) \<and>
   mse (ModelBase_init :: real ModelBase) False False False = Inl TypeError"
  by (simp add: ModelBase_init_def summary_def mse_def get_metrics_def)


subsection \<open>Reads of a pending handle\<close>

text \<open>
  C6, as the code has it. On a handle that is pending (\<^verbatim>\<open>_future\<close> is true and
  \<^verbatim>\<open>_job\<close> holds the job handle), \<^verbatim>\<open>show()\<close> performs exactly one \<^verbatim>\<open>poll_once()\<close>,
  prints nothing and returns without raising. The metric reads have no effect in the
  source, and so are functions of the handle alone: they never call the job handle. Their
  result does not depend on the readiness fields: it is what the same read returns on
  the handle with \<^verbatim>\<open>_future\<close> false and no job, which is \<^verbatim>\<open>TypeError\<close> while the
  document is absent.
\<close>

theorem pending_reads:
  assumes "priv_future self" and "priv_job self = Some j"
  shows "show_model self tr = (Inr (), tr @ [Poll_once j]) \<and>
         (if priv_model_json self = None
          then get_metrics self train valid xval = Inl TypeError
          else \<exists>tm. get_metrics self train valid xval = Inr tm) \<and>
         get_metrics self train valid xval =
           get_metrics (self\<lparr>priv_future := False, priv_job := None\<rparr>) train valid xval \<and>
         r2 self train valid xval =
           r2 (self\<lparr>priv_future := False, priv_job := None\<rparr>) train valid xval \<and>
         mse self train valid xval =
           mse (self\<lparr>priv_future := False, priv_job := None\<rparr>) train valid xval \<and>
         rmse self train valid xval =
           rmse (self\<lparr>priv_future := False, priv_job := None\<rparr>) train valid xval \<and>
         mae self train valid xval =
           mae (self\<lparr>priv_future := False, priv_job := None\<rparr>) train valid xval \<and>
         rmsle self train valid xval =
           rmsle (self\<lparr>priv_future := False, priv_job := None\<rparr>) train valid xval \<and>
         logloss self train valid xval =
           logloss (self\<lparr>priv_future := False, priv_job := None\<rparr>) train valid xval \<and>
         mean_residual_deviance self train valid xval =
           mean_residual_deviance (self\<lparr>priv_future := False, priv_job := None\<rparr>)
             train valid xval \<and>
         auc self train valid xval =
           auc (self\<lparr>priv_future := False, priv_job := None\<rparr>) train valid xval \<and>
         aic self train valid xval =
           aic (self\<lparr>priv_future := False, priv_job := None\<rparr>) train valid xval \<and>
         gini self train valid xval =
           gini (self\<lparr>priv_future := False, priv_job := None\<rparr>) train valid xval \<and>
         residual_deviance self train valid xval =
           residual_deviance (self\<lparr>priv_future := False, priv_job := None\<rparr>) train valid xval \<and>
         residual_degrees_of_freedom self train valid xval =
           residual_degrees_of_freedom (self\<lparr>priv_future := False, priv_job := None\<rparr>)
             train valid xval \<and>
         null_deviance self train valid xval =
           null_deviance (self\<lparr>priv_future := False, priv_job := None\<rparr>) train valid xval \<and>
         null_degrees_of_freedom self train valid xval =
           null_degrees_of_freedom (self\<lparr>priv_future := False, priv_job := None\<rparr>)
             train valid xval"
proof -
  have gm: "\<And>t v x. get_metrics self t v x =
           get_metrics (self\<lparr>priv_future := False, priv_job := None\<rparr>) t v x"
    by (simp add: get_metrics_def)
  have "show_model self tr = (Inr (), tr @ [Poll_once j])"
    using assms by (simp add: show_model_def)
  moreover have "(if priv_model_json self = None
          then get_metrics self train valid xval = Inl TypeError
          else \<exists>tm. get_metrics self train valid xval = Inr tm)"
    by (cases "priv_model_json self") (simp_all add: get_metrics_def Let_def)
  moreover have "residual_deviance self train valid xval =
           residual_deviance (self\<lparr>priv_future := False, priv_job := None\<rparr>) train valid xval"
    "residual_degrees_of_freedom self train valid xval =
           residual_degrees_of_freedom (self\<lparr>priv_future := False, priv_job := None\<rparr>)
             train valid xval"
    "null_deviance self train valid xval =
           null_deviance (self\<lparr>priv_future := False, priv_job := None\<rparr>) train valid xval"
    "null_degrees_of_freedom self train valid xval =
           null_degrees_of_freedom (self\<lparr>priv_future := False, priv_job := None\<rparr>)
             train valid xval"
    by (simp_all add: residual_deviance_def residual_degrees_of_freedom_def null_deviance_def
        null_degrees_of_freedom_def)
  ultimately show ?thesis
    unfolding r2_def mse_def rmse_def mae_def rmsle_def logloss_def
      mean_residual_deviance_def auc_def aic_def gini_def
    using gm by simp
qed

theorem pending_reads_witness:
  "priv_future pending_model \<and> priv_job pending_model = Some (H2OJob ''job1'') \<and>
   show_model pending_model [] = (Inr (), [Poll_once (H2OJob ''job1'')]) \<and>
   get_metrics pending_model True False False = Inl TypeError"
proof -
  have a: "priv_future pending_model" "priv_job pending_model = Some (H2OJob ''job1'')"
    by (simp_all add: pending_model_def)
  have b: "priv_model_json pending_model = None"
    by (simp add: pending_model_def)
  note reads = pending_reads [OF a, of "[]" True False False]
  have "show_model pending_model [] = (Inr (), [Poll_once (H2OJob ''job1'')])"
    using reads [THEN conjunct1] by simp
  moreover have "get_metrics pending_model True False False = Inl TypeError"
    using reads [THEN conjunct2, THEN conjunct1] b by simp
  ultimately show ?thesis
    using a by simp
qed


text \<open>
  The specification's statement that a metrics read of a pending handle blocks until the job resolves and then
  returns the final value fails: on the pending handle, whose document has not arrived,
  the selection and \<^verbatim>\<open>mse()\<close> raise \<^verbatim>\<open>TypeError\<close> at once.
\<close>

theorem pending_reads_counterexample:
  "priv_future pending_model \<and> priv_job pending_model = Some (H2OJob ''job1'') \<and>
   get_metrics pending_model False False False = Inl TypeError \<and>
   mse pending_model False False False = Inl TypeError"
  by (simp add: pending_model_def mse_def get_metrics_def)

end
